theory Spec2Isabelle
  imports Main "HOL-Library.Word" "HOL-Library.Signed_Division"
begin

section \<open>The date rotator of glog: a writer that rotates its file once a day\<close>

text \<open>
  The development embeds \<^verbatim>\<open>DateRotator\<close> and its methods \<^verbatim>\<open>NewDateRotator\<close>,
  \<^verbatim>\<open>Write\<close>, \<^verbatim>\<open>getFileHandler\<close>, \<^verbatim>\<open>Close\<close>, \<^verbatim>\<open>cleanRunOnce\<close>, \<^verbatim>\<open>oldLogFiles\<close>
  and \<^verbatim>\<open>timeFromName\<close>.

  \<^item> Go's \<^verbatim>\<open>int64\<close> is \<open>64 word\<close>: \<open>+\<close>, \<open>-\<close> and \<open>*\<close> wrap, comparisons read the
    word through \<open>sint\<close>, and \<^verbatim>\<open>%\<close> truncates towards zero and panics on a zero divisor.
  \<^item> The methods run under the writer's mutex, one at a time; a method is a function from
    the writer and the history of the operating system to a result, the new writer and
    the new history.
  \<^item> The operating system is a record of response functions: what a call returns may
    depend on everything that happened before (the history), and every call is appended
    to the history with its result. Theorems hold for every such operating system.
  \<^item> The standard library's pure functions (\<^verbatim>\<open>Time.Format\<close>, \<^verbatim>\<open>time.Parse\<close>,
    \<^verbatim>\<open>filepath.Join\<close>, \<^verbatim>\<open>filepath.Split\<close>) are parameters, collected in a record.
\<close>

subsection \<open>Values\<close>

type_synonym int64 = "64 word"
type_synonym bytes = "8 word list"

text \<open>A non-nil \<^verbatim>\<open>*os.File\<close> is identified by a number; \<^verbatim>\<open>nil\<close> is \<open>None\<close>.\<close>

type_synonym handle = nat

text \<open>Errors of the operating system and of the standard library.\<close>

datatype os_error =
    ErrInvalid  \<comment> \<open>\<^verbatim>\<open>os.ErrInvalid\<close>, "invalid argument"\<close>
  | ErrClosed   \<comment> \<open>\<^verbatim>\<open>os.ErrClosed\<close>, "file already closed"\<close>
  | Errno string

text \<open>
  What a method of the rotator gives back besides a value. \<open>PanicDivideByZero\<close> is not a
  returned error: it stands for the run-time panic "integer divide by zero" of \<^verbatim>\<open>%\<close>,
  which unwinds through the method (the deferred unlock still runs).
\<close>

datatype error =
    ClosedWriter                  \<comment> \<open>\<^verbatim>\<open>errors.New(`target io.Writer is closed`)\<close>\<close>
  | FileOpenError string os_error \<comment> \<open>\<^verbatim>\<open>"failed to open file %s: %s"\<close>\<close>
  | ReadDirError os_error         \<comment> \<open>\<^verbatim>\<open>"can't read log file directory: %s"\<close>\<close>
  | OsError os_error              \<comment> \<open>an error of the os package handed on as it is\<close>
  | PanicDivideByZero

text \<open>
  A value of the interface type \<^verbatim>\<open>io.Writer\<close>. The nil interface and an interface that
  holds a nil \<^verbatim>\<open>*os.File\<close> are different values in Go: only the first one is \<^verbatim>\<open>== nil\<close>.
\<close>

datatype io_Writer =
    NilWriter
  | FileWriter "handle option"

record DateRotator =
  timeDiffToUTC :: int64
  lastTime :: int64
  period :: int64
  maxAge :: int64
  logPath :: string
  filename :: string
  outFile :: "handle option"
  logFileTimeFormat :: string
  ext :: string

subsection \<open>The operating system and the standard library\<close>

text \<open>\<^verbatim>\<open>os.FileInfo\<close>, of which the code reads \<^verbatim>\<open>Name()\<close> only.\<close>

record FileInfo =
  Name :: string

text \<open>\<^verbatim>\<open>os.DirEntry\<close>: \<^verbatim>\<open>Name()\<close>, \<^verbatim>\<open>IsDir()\<close> and the result of \<^verbatim>\<open>Info()\<close>.\<close>

record DirEntry =
  entryName :: string
  IsDir :: bool
  Info :: "os_error + FileInfo"

datatype os_event =
    EvClose handle "os_error option"
  | EvOpenFile string "os_error + handle"
  | EvWrite handle bytes "nat \<times> os_error option"
  | EvGoCleanRunOnce
  | EvReadDir string "os_error + DirEntry list"
  | EvRemove string "os_error option"

type_synonym history = "os_event list"

record opsys =
  file_Close :: "history \<Rightarrow> handle \<Rightarrow> os_error option"
  os_OpenFile :: "history \<Rightarrow> string \<Rightarrow> os_error + handle"
  file_Write :: "history \<Rightarrow> handle \<Rightarrow> bytes \<Rightarrow> nat \<times> os_error option"
  os_ReadDir :: "history \<Rightarrow> string \<Rightarrow> os_error + DirEntry list"
  os_Remove :: "history \<Rightarrow> string \<Rightarrow> os_error option"

text \<open>
  \<open>time_Format t layout\<close> is \<^verbatim>\<open>time.Unix(0, t).Format(layout)\<close> in the local zone;
  \<open>time_Parse layout s\<close> is \<^verbatim>\<open>time.Parse(layout, s)\<close>, the instant in nanoseconds since
  the Unix epoch.
\<close>

record stdlib =
  time_Format :: "int64 \<Rightarrow> string \<Rightarrow> string"
  time_Parse :: "string \<Rightarrow> string \<Rightarrow> os_error + int"
  filepath_Join :: "string \<Rightarrow> string \<Rightarrow> string"
  filepath_Split_dir :: "string \<Rightarrow> string"

subsection \<open>Integer arithmetic of Go\<close>

text \<open>
  \<^verbatim>\<open>x % y\<close> on \<^verbatim>\<open>int64\<close>: the remainder of the division that truncates towards zero, with
  the sign of \<open>x\<close>; a zero divisor panics (\<open>None\<close>).
\<close>

definition go_rem :: "int64 \<Rightarrow> int64 \<Rightarrow> int64 option" where
  "go_rem x y = (if y = 0 then None else Some (word_of_int (sint x smod sint y)))"

text \<open>The signed comparison \<^verbatim>\<open>x < y\<close> on \<^verbatim>\<open>int64\<close>.\<close>

definition go_less :: "int64 \<Rightarrow> int64 \<Rightarrow> bool" where
  "go_less x y = (sint x < sint y)"

subsection \<open>NewDateRotator\<close>

datatype stat_result = StatOk | StatNotExist | StatError os_error

text \<open>24 hours and one second in nanoseconds.\<close>

definition Hour24 :: int64 where
  "Hour24 = 86400000000000"

definition Second :: int64 where
  "Second = 1000000000"

text \<open>
  The constructor, given what \<^verbatim>\<open>os.Executable\<close>, \<^verbatim>\<open>os.Stat\<close> and \<^verbatim>\<open>os.MkdirAll\<close>
  answer and the offset in seconds of the local zone. The fields it does not set have
  Go's zero values.
\<close>

definition NewDateRotator ::
  "stdlib \<Rightarrow> os_error + string \<Rightarrow> stat_result \<Rightarrow> os_error option \<Rightarrow> int64 \<Rightarrow>
   string \<Rightarrow> string \<Rightarrow> string \<Rightarrow> int64 \<Rightarrow> error + DateRotator" where
  "NewDateRotator lib executable stat mkdirAll offset directory format ex maxAg =
    (case executable of
       Inl e \<Rightarrow> Inl (OsError e)
     | Inr absolutePath \<Rightarrow>
        (let dir = filepath_Split_dir lib absolutePath;
             lp = filepath_Join lib dir directory;
             tw = \<lparr> timeDiffToUTC = offset * Second, lastTime = 0, period = Hour24,
                    maxAge = maxAg, logPath = lp, filename = [], outFile = None,
                    logFileTimeFormat = format, ext = ex \<rparr>
         in case stat of
              StatNotExist \<Rightarrow>
                (case mkdirAll of Some e \<Rightarrow> Inl (OsError e) | None \<Rightarrow> Inr tw)
            | _ \<Rightarrow> Inr tw))"

subsection \<open>The rotation decision and Write\<close>

text \<open>
  Line 73: \<^verbatim>\<open>current := nowUnixNano - ((nowUnixNano + tw.timeDiffToUTC) % tw.period)\<close>.
\<close>

definition currentBucket :: "int64 \<Rightarrow> DateRotator \<Rightarrow> int64 option" where
  "currentBucket nowUnixNano tw =
    (case go_rem (nowUnixNano + timeDiffToUTC tw) (period tw) of
       None \<Rightarrow> None
     | Some r \<Rightarrow> Some (nowUnixNano - r))"

text \<open>Closing the old file when there is one (lines 83 to 88).\<close>

definition closeOld :: "opsys \<Rightarrow> DateRotator \<Rightarrow> history \<Rightarrow> os_error option \<times> history" where
  "closeOld sys tw h =
    (case outFile tw of
       None \<Rightarrow> (None, h)
     | Some f \<Rightarrow> (let r = file_Close sys h f in (r, h @ [EvClose f r])))"

text \<open>
  \<^verbatim>\<open>getFileHandler\<close>. Both early returns hand \<^verbatim>\<open>tw.outFile\<close>, a \<^verbatim>\<open>*os.File\<close>, to the
  result of type \<^verbatim>\<open>io.Writer\<close>: the interface then holds that pointer, nil or not. The
  error returns give the nil interface. The goroutine of line 100 is recorded as the event
  \<open>EvGoCleanRunOnce\<close>; what it does is \<open>cleanRunOnce\<close> below.
\<close>

definition getFileHandler ::
  "opsys \<Rightarrow> stdlib \<Rightarrow> int64 \<Rightarrow> DateRotator \<Rightarrow> history \<Rightarrow>
   (error + io_Writer) \<times> DateRotator \<times> history" where
  "getFileHandler sys lib nowUnixNano tw h =
    (case currentBucket nowUnixNano tw of
       None \<Rightarrow> (Inl PanicDivideByZero, tw, h)
     | Some current \<Rightarrow>
        if go_less (current - lastTime tw) (period tw)
        then (Inr (FileWriter (outFile tw)), tw, h)
        else
          (let logfile = time_Format lib current (logFileTimeFormat tw) @ ext tw in
           if filename tw = logfile
           then (Inr (FileWriter (outFile tw)), tw, h)
           else
             (case closeOld sys tw h of
                (Some e, h1) \<Rightarrow> (Inl (OsError e), tw, h1)
              | (None, h1) \<Rightarrow>
                 (let fname = filepath_Join lib (logPath tw) logfile;
                      r = os_OpenFile sys h1 fname;
                      h2 = h1 @ [EvOpenFile fname r]
                  in case r of
                       Inl e \<Rightarrow> (Inl (FileOpenError fname e), tw, h2)
                     | Inr fh \<Rightarrow>
                        (Inr (FileWriter (Some fh)),
                         tw\<lparr>outFile := Some fh, filename := logfile, lastTime := current\<rparr>,
                         h2 @ [EvGoCleanRunOnce])))))"

text \<open>
  \<^verbatim>\<open>Write\<close>. The test \<^verbatim>\<open>fh == nil\<close> is true of the nil interface only. On an interface
  that holds a nil \<^verbatim>\<open>*os.File\<close>, \<^verbatim>\<open>fh.Write(p)\<close> is \<^verbatim>\<open>(*os.File).Write\<close> on a nil
  receiver, which returns \<^verbatim>\<open>0, os.ErrInvalid\<close>.
\<close>

definition Write ::
  "opsys \<Rightarrow> stdlib \<Rightarrow> int64 \<Rightarrow> bytes \<Rightarrow> DateRotator \<Rightarrow> history \<Rightarrow>
   (nat \<times> error option) \<times> DateRotator \<times> history" where
  "Write sys lib nowUnixNano p tw h =
    (case getFileHandler sys lib nowUnixNano tw h of
       (Inl err, tw1, h1) \<Rightarrow> ((0, Some err), tw1, h1)
     | (Inr NilWriter, tw1, h1) \<Rightarrow> ((0, Some ClosedWriter), tw1, h1)
     | (Inr (FileWriter None), tw1, h1) \<Rightarrow> ((0, Some (OsError ErrInvalid)), tw1, h1)
     | (Inr (FileWriter (Some f)), tw1, h1) \<Rightarrow>
        (let r = file_Write sys h1 f p
         in ((fst r, map_option OsError (snd r)), tw1, h1 @ [EvWrite f p r])))"

text \<open>
  The test of line 74 for a clock reading: the computed bucket start satisfies
  \<open>current - lastTime < period\<close>.
\<close>

definition sameBucket :: "int64 \<Rightarrow> DateRotator \<Rightarrow> bool" where
  "sameBucket nowUnixNano tw =
    (case currentBucket nowUnixNano tw of
       None \<Rightarrow> False
     | Some current \<Rightarrow> go_less (current - lastTime tw) (period tw))"

subsection \<open>Close\<close>

definition Close :: "opsys \<Rightarrow> DateRotator \<Rightarrow> history \<Rightarrow> error option \<times> DateRotator \<times> history" where
  "Close sys tw h =
    (case outFile tw of
       None \<Rightarrow> (None, tw, h)
     | Some f \<Rightarrow>
        (let r = file_Close sys h f; h1 = h @ [EvClose f r]
         in case r of
              Some e \<Rightarrow> (Some (OsError e), tw, h1)
            | None \<Rightarrow> (None, tw\<lparr>outFile := None\<rparr>, h1)))"

subsection \<open>The retention sweep\<close>

text \<open>\<^verbatim>\<open>logInfo\<close>: a parsed time (an instant, in nanoseconds since the Unix epoch) with the file's \<^verbatim>\<open>os.FileInfo\<close>.\<close>

record logInfo =
  timestamp :: int
  info :: FileInfo

text \<open>\<^verbatim>\<open>strings.HasSuffix\<close>.\<close>

definition HasSuffix :: "string \<Rightarrow> string \<Rightarrow> bool" where
  "HasSuffix s suffix =
    (length suffix \<le> length s \<and> drop (length s - length suffix) s = suffix)"

definition timeFromName :: "stdlib \<Rightarrow> DateRotator \<Rightarrow> string \<Rightarrow> os_error + int" where
  "timeFromName lib tw fname =
    (if \<not> HasSuffix fname (ext tw) then Inl (Errno ''mismatched extension'')
     else time_Parse lib (logFileTimeFormat tw) (take (length fname - length (ext tw)) fname))"

text \<open>The loop of \<^verbatim>\<open>oldLogFiles\<close> over the directory entries.\<close>

fun logFilesOf :: "stdlib \<Rightarrow> DateRotator \<Rightarrow> DirEntry list \<Rightarrow> logInfo list" where
  "logFilesOf lib tw [] = []"
| "logFilesOf lib tw (entry # entries) =
    (if IsDir entry then logFilesOf lib tw entries
     else
       (case timeFromName lib tw (entryName entry) of
          Inl _ \<Rightarrow> logFilesOf lib tw entries
        | Inr t \<Rightarrow>
           (case Info entry of
              Inl _ \<Rightarrow> logFilesOf lib tw entries
            | Inr f \<Rightarrow> \<lparr>timestamp = t, info = f\<rparr> # logFilesOf lib tw entries)))"

text \<open>
  \<^verbatim>\<open>sort.Sort(byFormatTime(logFiles))\<close> with \<^verbatim>\<open>Less(i, j) = b[i].timestamp.After(b[j].timestamp)\<close>:
  the most recent first. \<^verbatim>\<open>sort.Sort\<close> promises no order among files of equal time; the
  insertion sort here is one such order, and no theorem below depends on which.
\<close>

definition Less :: "logInfo \<Rightarrow> logInfo \<Rightarrow> bool" where
  "Less a b = (timestamp b < timestamp a)"

fun insertByFormatTime :: "logInfo \<Rightarrow> logInfo list \<Rightarrow> logInfo list" where
  "insertByFormatTime a [] = [a]"
| "insertByFormatTime a (b # bs) =
    (if Less b a then b # insertByFormatTime a bs else a # b # bs)"

fun sortByFormatTime :: "logInfo list \<Rightarrow> logInfo list" where
  "sortByFormatTime [] = []"
| "sortByFormatTime (a # as) = insertByFormatTime a (sortByFormatTime as)"

definition oldLogFiles ::
  "opsys \<Rightarrow> stdlib \<Rightarrow> DateRotator \<Rightarrow> history \<Rightarrow> (error + logInfo list) \<times> history" where
  "oldLogFiles sys lib tw h =
    (let r = os_ReadDir sys h (logPath tw); h1 = h @ [EvReadDir (logPath tw) r]
     in case r of
          Inl e \<Rightarrow> (Inl (ReadDirError e), h1)
        | Inr dirEntries \<Rightarrow> (Inr (sortByFormatTime (logFilesOf lib tw dirEntries)), h1))"

text \<open>
  Lines 134 and 135: \<^verbatim>\<open>diff\<close> is an \<^verbatim>\<open>int64\<close> product, which wraps, and so does its
  negation; \<^verbatim>\<open>Add\<close> moves the instant \<^verbatim>\<open>now\<close> by that many nanoseconds.
\<close>

definition cutoff :: "int \<Rightarrow> DateRotator \<Rightarrow> int" where
  "cutoff now tw = now + sint (- (Hour24 * maxAge tw))"

text \<open>The loop of lines 143 to 148, with the variable \<^verbatim>\<open>err\<close> as an argument.\<close>

fun removeAll ::
  "opsys \<Rightarrow> stdlib \<Rightarrow> DateRotator \<Rightarrow> logInfo list \<Rightarrow> error option \<Rightarrow> history \<Rightarrow>
   error option \<times> history" where
  "removeAll sys lib tw [] err h = (err, h)"
| "removeAll sys lib tw (f # fs) err h =
    (let path = filepath_Join lib (logPath tw) (Name (info f));
         errRemove = os_Remove sys h path;
         err1 = (if err = None \<and> errRemove \<noteq> None then map_option OsError errRemove else err)
     in removeAll sys lib tw fs err1 (h @ [EvRemove path errRemove]))"

text \<open>\<^verbatim>\<open>cleanRunOnce\<close>, run at the instant \<open>now\<close>.\<close>

definition cleanRunOnce ::
  "opsys \<Rightarrow> stdlib \<Rightarrow> int \<Rightarrow> DateRotator \<Rightarrow> history \<Rightarrow> error option \<times> history" where
  "cleanRunOnce sys lib now tw h =
    (if maxAge tw = 0 then (None, h)
     else
       (case oldLogFiles sys lib tw h of
          (Inl err, h1) \<Rightarrow> (Some err, h1)
        | (Inr files, h1) \<Rightarrow>
           (let remove =
                  (if go_less 0 (maxAge tw)
                   then filter (\<lambda>f. timestamp f < cutoff now tw) files
                   else [])
            in removeAll sys lib tw remove None h1)))"

subsection \<open>Sequences of operations\<close>

text \<open>\<open>OpWrite now p\<close> is a call \<^verbatim>\<open>Write(p)\<close> during which the clock reads \<open>now\<close>.\<close>

datatype operation = OpWrite int64 bytes | OpClose

text \<open>Running the calls one after the other; \<open>None\<close> when one of them panics.\<close>

fun run ::
  "opsys \<Rightarrow> stdlib \<Rightarrow> operation list \<Rightarrow> DateRotator \<Rightarrow> history \<Rightarrow>
   (DateRotator \<times> history) option" where
  "run sys lib [] tw h = Some (tw, h)"
| "run sys lib (OpWrite now p # ops) tw h =
    (case Write sys lib now p tw h of
       ((n, err), tw1, h1) \<Rightarrow>
         if err = Some PanicDivideByZero then None else run sys lib ops tw1 h1)"
| "run sys lib (OpClose # ops) tw h =
    (case Close sys tw h of (err, tw1, h1) \<Rightarrow> run sys lib ops tw1 h1)"

text \<open>The clock readings of the Write calls of a sequence.\<close>

fun clockReadings :: "operation list \<Rightarrow> int64 list" where
  "clockReadings [] = []"
| "clockReadings (OpWrite now p # ops) = now # clockReadings ops"
| "clockReadings (OpClose # ops) = clockReadings ops"

text \<open>
  Clock readings from the Unix epoch up to two days before the last instant that
  \<^verbatim>\<open>UnixNano\<close> can represent (April 2262).
\<close>

definition clockInRange :: "int64 \<Rightarrow> bool" where
  "clockInRange nowUnixNano =
    (0 \<le> sint nowUnixNano \<and> sint nowUnixNano < 2 ^ 63 - 2 * sint Hour24)"

subsection \<open>Reading a history\<close>

text \<open>The paths handed to \<^verbatim>\<open>os.Remove\<close>, in the order of the calls.\<close>

fun removedPaths :: "history \<Rightarrow> string list" where
  "removedPaths [] = []"
| "removedPaths (EvRemove path r # h) = path # removedPaths h"
| "removedPaths (_ # h) = removedPaths h"

text \<open>The errors that the calls of \<^verbatim>\<open>os.Remove\<close> returned, in the order of the calls.\<close>

fun removeErrors :: "history \<Rightarrow> os_error list" where
  "removeErrors [] = []"
| "removeErrors (EvRemove path (Some e) # h) = e # removeErrors h"
| "removeErrors (_ # h) = removeErrors h"

text \<open>The first of those errors, as \<^verbatim>\<open>cleanRunOnce\<close> would return it; \<open>None\<close> when no removal failed.\<close>

definition firstRemoveError :: "history \<Rightarrow> error option" where
  "firstRemoveError h = (case removeErrors h of [] \<Rightarrow> None | e # es \<Rightarrow> Some (OsError e))"

text \<open>The path that \<^verbatim>\<open>cleanRunOnce\<close> removes for a log file.\<close>

definition pathOf :: "stdlib \<Rightarrow> DateRotator \<Rightarrow> logInfo \<Rightarrow> string" where
  "pathOf lib tw f = filepath_Join lib (logPath tw) (Name (info f))"

text \<open>A directory of three log files, a file of another kind and a subdirectory.\<close>

definition logsDir :: "DirEntry list" where
  "logsDir =
    [\<lparr>entryName = ''2025-12-31.log'', IsDir = False, Info = Inr \<lparr>Name = ''2025-12-31.log''\<rparr>\<rparr>,
     \<lparr>entryName = ''2026-01-01.log'', IsDir = False, Info = Inr \<lparr>Name = ''2026-01-01.log''\<rparr>\<rparr>,
     \<lparr>entryName = ''notes.txt'', IsDir = False, Info = Inr \<lparr>Name = ''notes.txt''\<rparr>\<rparr>,
     \<lparr>entryName = ''old'', IsDir = True, Info = Inr \<lparr>Name = ''old''\<rparr>\<rparr>,
     \<lparr>entryName = ''2026-01-02.log'', IsDir = False, Info = Inr \<lparr>Name = ''2026-01-02.log''\<rparr>\<rparr>]"

text \<open>
  Whether a history consists of writes on the given handle and of nothing else: no close,
  no open, no sweep, no listing, no removal.
\<close>

fun onlyWritesTo :: "handle option \<Rightarrow> history \<Rightarrow> bool" where
  "onlyWritesTo fo [] = True"
| "onlyWritesTo fo (EvWrite f p r # h) = (fo = Some f \<and> onlyWritesTo fo h)"
| "onlyWritesTo fo (_ # h) = False"

text \<open>Whether a history opens the file at a path.\<close>

fun opensPath :: "string \<Rightarrow> history \<Rightarrow> bool" where
  "opensPath path [] = False"
| "opensPath path (EvOpenFile q r # h) = (q = path \<or> opensPath path h)"
| "opensPath path (_ # h) = opensPath path h"

subsection \<open>The invariant of the open handle\<close>

text \<open>
  The name that the rotation gives the file of the bucket that starts at \<open>t\<close>.
\<close>

definition bucketFileName :: "stdlib \<Rightarrow> DateRotator \<Rightarrow> int64 \<Rightarrow> string" where
  "bucketFileName lib tw t = time_Format lib t (logFileTimeFormat tw) @ ext tw"

text \<open>
  When the writer holds a handle: the recorded file name is the name of the bucket that
  starts at the recorded \<open>lastTime\<close>, the handle is what the operating system returned for
  opening the file of that name in the log directory, and \<open>lastTime\<close> is the bucket start
  computed from one of the clock readings \<open>seen\<close>.
\<close>

definition handleInvariant :: "stdlib \<Rightarrow> int64 list \<Rightarrow> DateRotator \<Rightarrow> history \<Rightarrow> bool" where
  "handleInvariant lib seen tw h =
    (case outFile tw of
       None \<Rightarrow> True
     | Some f \<Rightarrow>
         filename tw = bucketFileName lib tw (lastTime tw)
         \<and> EvOpenFile (filepath_Join lib (logPath tw) (filename tw)) (Inr f) \<in> set h
         \<and> list_ex (\<lambda>now. currentBucket now tw = Some (lastTime tw)) seen)"

subsection \<open>A concrete operating system and library\<close>

text \<open>
  Values of the standard library in a process whose local zone is UTC, for the layout
  \<^verbatim>\<open>2006-01-02\<close> and four days (1 January 1700 is 98615 days before the Unix epoch); the
  executable lives in \<^verbatim>\<open>/opt/app/\<close>.
\<close>

definition utcLib :: stdlib where
  "utcLib =
    \<lparr> time_Format = (\<lambda>t layout.
         if layout = ''2006-01-02'' then
           (if t = - 8520336000000000000 then ''1700-01-01''
            else if t = 1767139200000000000 then ''2025-12-31''
            else if t = 1767225600000000000 then ''2026-01-01''
            else if t = 1767312000000000000 then ''2026-01-02''
            else ''another-day'')
         else layout),
       time_Parse = (\<lambda>layout s.
         if layout = ''2006-01-02'' \<and> s = ''1700-01-01'' then Inr (- 8520336000000000000)
         else if layout = ''2006-01-02'' \<and> s = ''2025-12-31'' then Inr 1767139200000000000
         else if layout = ''2006-01-02'' \<and> s = ''2026-01-01'' then Inr 1767225600000000000
         else if layout = ''2006-01-02'' \<and> s = ''2026-01-02'' then Inr 1767312000000000000
         else Inl (Errno ''cannot parse'')),
       filepath_Join = (\<lambda>dir name.
         (if dir \<noteq> [] \<and> last dir = CHR ''/'' then dir else dir @ ''/'') @ name),
       filepath_Split_dir = (\<lambda>path. ''/opt/app/'') \<rparr>"

text \<open>Whether a history already closed a handle.\<close>

fun wasClosed :: "handle \<Rightarrow> history \<Rightarrow> bool" where
  "wasClosed f [] = False"
| "wasClosed f (EvClose g r # h) = (g = f \<or> wasClosed f h)"
| "wasClosed f (_ # h) = wasClosed f h"

text \<open>
  An operating system with chosen failures: the paths that cannot be opened, the handles
  whose first close fails, the paths that cannot be removed, and what listing the
  directory gives. As \<^verbatim>\<open>(*os.File).Close\<close> documents, closing a file that was closed
  before returns an error.
\<close>

definition disk ::
  "string list \<Rightarrow> handle list \<Rightarrow> string list \<Rightarrow> os_error + DirEntry list \<Rightarrow> opsys" where
  "disk noOpen badClose noRemove listing =
    \<lparr> file_Close = (\<lambda>h f.
         if wasClosed f h then Some ErrClosed
         else if f \<in> set badClose then Some (Errno ''input/output error'')
         else None),
       os_OpenFile = (\<lambda>h path.
         if path \<in> set noOpen then Inl (Errno ''permission denied'')
         else Inr (Suc (length h))),
       file_Write = (\<lambda>h f p.
         if wasClosed f h then (0, Some ErrClosed) else (length p, None)),
       os_ReadDir = (\<lambda>h dir. listing),
       os_Remove = (\<lambda>h path.
         if path \<in> set noRemove then Some (Errno (''cannot remove '' @ path))
         else None) \<rparr>"

text \<open>A writer of the layout \<^verbatim>\<open>2006-01-02\<close> that holds the file of 1 January 2026.\<close>

definition writerJan1 :: DateRotator where
  "writerJan1 =
    \<lparr> timeDiffToUTC = 0, lastTime = 1767225600000000000, period = Hour24, maxAge = 1,
       logPath = ''/opt/app/logs'', filename = ''2026-01-01.log'', outFile = Some 1,
       logFileTimeFormat = ''2006-01-02'', ext = ''.log'' \<rparr>"

text \<open>The history in which that file was opened.\<close>

definition historyJan1 :: history where
  "historyJan1 = [EvOpenFile ''/opt/app/logs/2026-01-01.log'' (Inr 1), EvGoCleanRunOnce]"

text \<open>
  The writer that \<^verbatim>\<open>NewDateRotator("logs", "2006-01-02", ".log", 1)\<close> returns there, and
  what it and the history are after its first Write, of three bytes on 2 January 2026.
\<close>

definition writerNew :: DateRotator where
  "writerNew =
    \<lparr> timeDiffToUTC = 0, lastTime = 0, period = Hour24, maxAge = 1,
       logPath = ''/opt/app/logs'', filename = [], outFile = None,
       logFileTimeFormat = ''2006-01-02'', ext = ''.log'' \<rparr>"

definition writerJan2 :: DateRotator where
  "writerJan2 =
    \<lparr> timeDiffToUTC = 0, lastTime = 1767312000000000000, period = Hour24, maxAge = 1,
       logPath = ''/opt/app/logs'', filename = ''2026-01-02.log'', outFile = Some 1,
       logFileTimeFormat = ''2006-01-02'', ext = ''.log'' \<rparr>"

definition historyJan2 :: history where
  "historyJan2 =
    [EvOpenFile ''/opt/app/logs/2026-01-02.log'' (Inr 1), EvGoCleanRunOnce,
     EvWrite 1 [1, 2, 3] (3, None)]"

section \<open>Evaluating the concrete writers\<close>

lemmas concrete_defs =
  currentBucket_def go_rem_def go_less_def writerJan1_def Hour24_def
  signed_modulo_int_def utcLib_def disk_def historyJan1_def closeOld_def Let_def
  bucketFileName_def sameBucket_def writerNew_def writerJan2_def historyJan2_def

lemmas sweep_defs =
  cleanRunOnce_def oldLogFiles_def timeFromName_def HasSuffix_def cutoff_def Less_def
  logsDir_def pathOf_def firstRemoveError_def

section \<open>Bucket stability\<close>

lemma onlyWritesTo_append:
  "onlyWritesTo fo (h @ k) = (onlyWritesTo fo h \<and> onlyWritesTo fo k)"
  by (induction fo h rule: onlyWritesTo.induct) simp_all

lemma getFileHandler_sameBucket:
  assumes "sameBucket nowUnixNano tw"
  shows "getFileHandler sys lib nowUnixNano tw h = (Inr (FileWriter (outFile tw)), tw, h)"
  using assms by (simp add: sameBucket_def getFileHandler_def split: option.splits)

lemma Write_sameBucket:
  assumes "sameBucket nowUnixNano tw"
  shows "\<exists>n err k. Write sys lib nowUnixNano p tw h = ((n, err), tw, h @ k)
     \<and> onlyWritesTo (outFile tw) k \<and> err \<noteq> Some PanicDivideByZero"
proof (cases "outFile tw")
  case None
  then have "Write sys lib nowUnixNano p tw h = ((0, Some (OsError ErrInvalid)), tw, h @ [])"
    using getFileHandler_sameBucket [OF assms] by (simp add: Write_def)
  then show ?thesis by (metis error.distinct(19) onlyWritesTo.simps(1) option.inject)
next
  case (Some f)
  define r where "r = file_Write sys h f p"
  have "Write sys lib nowUnixNano p tw h
      = ((fst r, map_option OsError (snd r)), tw, h @ [EvWrite f p r])"
    using getFileHandler_sameBucket [OF assms] Some by (simp add: Write_def r_def Let_def)
  moreover have "onlyWritesTo (outFile tw) [EvWrite f p r]"
    using Some by simp
  moreover have "map_option OsError (snd r) \<noteq> Some PanicDivideByZero"
    by (cases "snd r") simp_all
  ultimately show ?thesis by blast
qed

lemma run_sameBucket:
  assumes "list_all (\<lambda>c. sameBucket (fst c) tw) calls"
  shows "\<exists>k. run sys lib (map (\<lambda>c. OpWrite (fst c) (snd c)) calls) tw h = Some (tw, h @ k)
     \<and> onlyWritesTo (outFile tw) k"
  using assms
proof (induction calls arbitrary: h)
  case Nil
  then show ?case by simp
next
  case (Cons c calls)
  obtain n err k where w: "Write sys lib (fst c) (snd c) tw h = ((n, err), tw, h @ k)"
    "onlyWritesTo (outFile tw) k" "err \<noteq> Some PanicDivideByZero"
    using Write_sameBucket [of "fst c" tw sys lib "snd c" h] Cons.prems by auto
  obtain k' where r: "run sys lib (map (\<lambda>c. OpWrite (fst c) (snd c)) calls) tw (h @ k)
      = Some (tw, (h @ k) @ k')" "onlyWritesTo (outFile tw) k'"
    using Cons.IH [of "h @ k"] Cons.prems by auto
  have "run sys lib (map (\<lambda>c. OpWrite (fst c) (snd c)) (c # calls)) tw h = Some (tw, h @ (k @ k'))"
    using w r by simp
  moreover have "onlyWritesTo (outFile tw) (k @ k')"
    using w(2) r(2) by (simp add: onlyWritesTo_append)
  ultimately show ?case by blast
qed

text \<open>
  C1. For Write calls whose computed bucket start satisfies \<open>current - lastTime < period\<close>,
  the rotation decision returns the handle the writer holds, leaves the writer as it is and
  adds nothing to the history of the operating system: no close, no open, no sweep. A
  sequence of such calls, each with its clock reading and its bytes, leaves the writer as it
  was, and all it adds to the history are writes on that one handle.
\<close>

theorem same_bucket_reuses_handle:
  assumes "list_all (\<lambda>c. sameBucket (fst c) tw) calls"
  shows "(\<forall>c \<in> set calls.
            getFileHandler sys lib (fst c) tw h = (Inr (FileWriter (outFile tw)), tw, h))
    \<and> (\<exists>k. run sys lib (map (\<lambda>c. OpWrite (fst c) (snd c)) calls) tw h = Some (tw, h @ k)
           \<and> onlyWritesTo (outFile tw) k)"
proof -
  have "\<forall>c \<in> set calls.
      getFileHandler sys lib (fst c) tw h = (Inr (FileWriter (outFile tw)), tw, h)"
    using assms by (simp add: list_all_iff getFileHandler_sameBucket)
  then show ?thesis
    using run_sameBucket [OF assms] by blast
qed

theorem same_bucket_reuses_handle_witness:
  "list_all (\<lambda>c. sameBucket (fst c) writerJan1)
      [(1767230000000000000, [1, 2, 3]), (1767229000000000000, [4])]
   \<and> getFileHandler (disk [] [] [] (Inr [])) utcLib 1767229000000000000 writerJan1 historyJan1
       = (Inr (FileWriter (outFile writerJan1)), writerJan1, historyJan1)
   \<and> (\<exists>k. run (disk [] [] [] (Inr [])) utcLib
            (map (\<lambda>c. OpWrite (fst c) (snd c))
               [(1767230000000000000, [1, 2, 3]), (1767229000000000000, [4])])
            writerJan1 historyJan1 = Some (writerJan1, historyJan1 @ k)
          \<and> onlyWritesTo (outFile writerJan1) k)"
proof -
  have a: "list_all (\<lambda>c. sameBucket (fst c) writerJan1)
      [(1767230000000000000, [1, 2, 3]), (1767229000000000000, [4])]"
    by (simp add: concrete_defs)
  show ?thesis
    using a same_bucket_reuses_handle [OF a, of "disk [] [] [] (Inr [])" utcLib historyJan1]
    by simp
qed

section \<open>Write after Close\<close>

text \<open>
  The rotation decision returns the nil interface only together with an error, so the
  branch of \<^verbatim>\<open>Write\<close> for \<^verbatim>\<open>fh == nil\<close> is never taken. A writer without a file, in
  a call that does not rotate, hands \<^verbatim>\<open>Write\<close> an interface that holds a nil
  \<^verbatim>\<open>*os.File\<close>, and the call returns \<^verbatim>\<open>os.ErrInvalid\<close> with zero bytes written.
\<close>

lemma getFileHandler_not_NilWriter:
  "fst (getFileHandler sys lib nowUnixNano tw h) \<noteq> Inr NilWriter"
  by (auto simp: getFileHandler_def closeOld_def Let_def
      split: option.splits sum.splits if_splits prod.splits)

lemma Write_not_ClosedWriter:
  "snd (fst (Write sys lib nowUnixNano p tw h)) \<noteq> Some ClosedWriter"
proof -
  obtain r tw1 h1 where g: "getFileHandler sys lib nowUnixNano tw h = (r, tw1, h1)"
    by (metis prod_cases3)
  have n: "r \<noteq> Inr NilWriter"
    using getFileHandler_not_NilWriter [of sys lib nowUnixNano tw h] g by simp
  have e: "r \<noteq> Inl ClosedWriter"
    using g
    by (auto simp: getFileHandler_def closeOld_def Let_def
        split: option.splits sum.splits if_splits prod.splits)
  show ?thesis
    using g n e
    by (auto simp: Write_def Let_def split: sum.splits io_Writer.splits option.splits)
qed

lemma Write_without_file:
  assumes "outFile tw = None"
    and "currentBucket nowUnixNano tw = Some current"
    and "go_less (current - lastTime tw) (period tw)
         \<or> filename tw = bucketFileName lib tw current"
  shows "Write sys lib nowUnixNano p tw h = ((0, Some (OsError ErrInvalid)), tw, h)"
proof -
  have "getFileHandler sys lib nowUnixNano tw h = (Inr (FileWriter None), tw, h)"
    using assms by (auto simp: getFileHandler_def bucketFileName_def Let_def)
  then show ?thesis by (simp add: Write_def)
qed

text \<open>
  C2, as amended. A Write after a Close that succeeded, when the rotation decision does
  not rotate (the computed bucket start satisfies \<open>current - lastTime < period\<close>, or the
  formatted name is the recorded file name), reports zero bytes written and returns an
  error; it leaves the writer and the history of the operating system as they were.
\<close>

theorem Write_after_Close_no_rotation:
  assumes "Close sys tw0 h0 = (None, tw, h)"
    and "currentBucket nowUnixNano tw = Some current"
    and "go_less (current - lastTime tw) (period tw)
         \<or> filename tw = bucketFileName lib tw current"
  shows "fst (fst (Write sys lib nowUnixNano p tw h)) = 0
    \<and> snd (fst (Write sys lib nowUnixNano p tw h)) \<noteq> None
    \<and> snd (Write sys lib nowUnixNano p tw h) = (tw, h)"
proof -
  have n: "outFile tw = None"
    using assms(1) by (auto simp: Close_def Let_def split: option.splits)
  have g: "getFileHandler sys lib nowUnixNano tw h = (Inr (FileWriter None), tw, h)"
    using assms(2,3) n by (auto simp: getFileHandler_def bucketFileName_def Let_def)
  show ?thesis using g by (simp add: Write_def)
qed

theorem Write_after_Close_no_rotation_witness:
  "Close (disk [] [] [] (Inr [])) writerJan1 historyJan1
     = (None, writerJan1\<lparr>outFile := None\<rparr>, historyJan1 @ [EvClose 1 None])
   \<and> currentBucket 1767230000000000000 (writerJan1\<lparr>outFile := None\<rparr>) = Some 1767225600000000000
   \<and> go_less (1767225600000000000 - lastTime (writerJan1\<lparr>outFile := None\<rparr>))
        (period (writerJan1\<lparr>outFile := None\<rparr>))
   \<and> fst (fst (Write (disk [] [] [] (Inr [])) utcLib 1767230000000000000 [1, 2, 3]
        (writerJan1\<lparr>outFile := None\<rparr>) (historyJan1 @ [EvClose 1 None]))) = 0
   \<and> snd (fst (Write (disk [] [] [] (Inr [])) utcLib 1767230000000000000 [1, 2, 3]
        (writerJan1\<lparr>outFile := None\<rparr>) (historyJan1 @ [EvClose 1 None]))) \<noteq> None"
proof -
  have c: "Close (disk [] [] [] (Inr [])) writerJan1 historyJan1
     = (None, writerJan1\<lparr>outFile := None\<rparr>, historyJan1 @ [EvClose 1 None])"
    by (simp add: Close_def concrete_defs)
  have b: "currentBucket 1767230000000000000 (writerJan1\<lparr>outFile := None\<rparr>)
     = Some 1767225600000000000"
    by (simp add: concrete_defs)
  have l: "go_less (1767225600000000000 - lastTime (writerJan1\<lparr>outFile := None\<rparr>))
        (period (writerJan1\<lparr>outFile := None\<rparr>))"
    by (simp add: concrete_defs)
  show ?thesis
    using c b l Write_after_Close_no_rotation [OF c b disjI1 [OF l], of utcLib "[1, 2, 3]"]
    by simp
qed

text \<open>
  C2, as stated, fails: the writer that holds the file of 1 January 2026 is closed, and a
  Write on 2 January opens the file of that day and writes its three bytes, with no error.
\<close>

theorem Write_after_Close_next_day_counterexample:
  "fst (Close (disk [] [] [] (Inr [])) writerJan1 historyJan1) = None
   \<and> fst (Write (disk [] [] [] (Inr [])) utcLib 1767323045000000000 [1, 2, 3]
        (fst (snd (Close (disk [] [] [] (Inr [])) writerJan1 historyJan1)))
        (snd (snd (Close (disk [] [] [] (Inr [])) writerJan1 historyJan1))))
     = (3, None)"
  by (simp add: Close_def Write_def getFileHandler_def concrete_defs)

text \<open>
  C9. After a Close that succeeded, a Write whose bucket start is a full period or more
  beyond \<open>lastTime\<close> and whose formatted name differs from the recorded file name opens the
  file of the new bucket. When the operating system opens it, the Write records the new
  handle, name and bucket start, launches the sweep, and returns what the write on the
  new file returns; when it does not, the Write returns the open error. In neither case
  does it return the closed-writer error, which is therefore confined to the calls where
  the rotation decision does not rotate.
\<close>

theorem Write_after_Close_new_bucket:
  assumes "Close sys tw0 h0 = (None, tw, h)"
    and "currentBucket nowUnixNano tw = Some current"
    and "\<not> go_less (current - lastTime tw) (period tw)"
    and "filename tw \<noteq> bucketFileName lib tw current"
  shows "opensPath (filepath_Join lib (logPath tw) (bucketFileName lib tw current))
           (drop (length h) (snd (snd (Write sys lib nowUnixNano p tw h))))
    \<and> snd (fst (Write sys lib nowUnixNano p tw h)) \<noteq> Some ClosedWriter
    \<and> (let path = filepath_Join lib (logPath tw) (bucketFileName lib tw current)
       in case os_OpenFile sys h path of
            Inl e \<Rightarrow>
              Write sys lib nowUnixNano p tw h
                = ((0, Some (FileOpenError path e)), tw, h @ [EvOpenFile path (Inl e)])
          | Inr fh \<Rightarrow>
              Write sys lib nowUnixNano p tw h =
                (let h1 = h @ [EvOpenFile path (Inr fh), EvGoCleanRunOnce];
                     r = file_Write sys h1 fh p
                 in ((fst r, map_option OsError (snd r)),
                     tw\<lparr>outFile := Some fh, filename := bucketFileName lib tw current,
                        lastTime := current\<rparr>,
                     h1 @ [EvWrite fh p r])))"
proof -
  have n: "outFile tw = None"
    using assms(1) by (auto simp: Close_def Let_def split: option.splits)
  show ?thesis
    using assms(2,3,4) n
    by (cases "os_OpenFile sys h (filepath_Join lib (logPath tw) (bucketFileName lib tw current))")
      (simp_all add: Write_def getFileHandler_def closeOld_def bucketFileName_def Let_def)
qed

theorem Write_after_Close_new_bucket_witness:
  "Close (disk [] [] [] (Inr [])) writerJan1 historyJan1
     = (None, writerJan1\<lparr>outFile := None\<rparr>, historyJan1 @ [EvClose 1 None])
   \<and> currentBucket 1767323045000000000 (writerJan1\<lparr>outFile := None\<rparr>) = Some 1767312000000000000
   \<and> \<not> go_less (1767312000000000000 - lastTime (writerJan1\<lparr>outFile := None\<rparr>))
        (period (writerJan1\<lparr>outFile := None\<rparr>))
   \<and> filename (writerJan1\<lparr>outFile := None\<rparr>)
        \<noteq> bucketFileName utcLib (writerJan1\<lparr>outFile := None\<rparr>) 1767312000000000000
   \<and> snd (fst (Write (disk [] [] [] (Inr [])) utcLib 1767323045000000000 [1, 2, 3]
        (writerJan1\<lparr>outFile := None\<rparr>) (historyJan1 @ [EvClose 1 None]))) \<noteq> Some ClosedWriter
   \<and> opensPath ''/opt/app/logs/2026-01-02.log''
        (drop (length (historyJan1 @ [EvClose 1 None]))
          (snd (snd (Write (disk [] [] [] (Inr [])) utcLib 1767323045000000000 [1, 2, 3]
            (writerJan1\<lparr>outFile := None\<rparr>) (historyJan1 @ [EvClose 1 None])))))"
proof -
  have c: "Close (disk [] [] [] (Inr [])) writerJan1 historyJan1
     = (None, writerJan1\<lparr>outFile := None\<rparr>, historyJan1 @ [EvClose 1 None])"
    by (simp add: Close_def concrete_defs)
  have b: "currentBucket 1767323045000000000 (writerJan1\<lparr>outFile := None\<rparr>)
     = Some 1767312000000000000"
    by (simp add: concrete_defs)
  have l: "\<not> go_less (1767312000000000000 - lastTime (writerJan1\<lparr>outFile := None\<rparr>))
        (period (writerJan1\<lparr>outFile := None\<rparr>))"
    by (simp add: concrete_defs)
  have n: "filename (writerJan1\<lparr>outFile := None\<rparr>)
        \<noteq> bucketFileName utcLib (writerJan1\<lparr>outFile := None\<rparr>) 1767312000000000000"
    by (simp add: concrete_defs)
  have p: "filepath_Join utcLib (logPath (writerJan1\<lparr>outFile := None\<rparr>))
       (bucketFileName utcLib (writerJan1\<lparr>outFile := None\<rparr>) 1767312000000000000)
     = ''/opt/app/logs/2026-01-02.log''"
    by (simp add: concrete_defs)
  show ?thesis
    using c b l n Write_after_Close_new_bucket [OF c b l n, of "[1, 2, 3]"]
    unfolding p by simp
qed

section \<open>Failures during rotation\<close>

text \<open>
  When the rotation has closed the old file, if any, and the open fails, the Write returns
  the open error and leaves every field of the writer as it was: \<open>lastTime\<close> and
  \<open>filename\<close>, and \<open>outFile\<close> as well, which is nil only if it was nil before.
\<close>

lemma Write_open_failure:
  assumes "currentBucket nowUnixNano tw = Some current"
    and "\<not> go_less (current - lastTime tw) (period tw)"
    and "filename tw \<noteq> bucketFileName lib tw current"
    and "closeOld sys tw h = (None, h1)"
    and "os_OpenFile sys h1 (filepath_Join lib (logPath tw) (bucketFileName lib tw current))
           = Inl e"
  shows "Write sys lib nowUnixNano p tw h
    = ((0, Some (FileOpenError
                   (filepath_Join lib (logPath tw) (bucketFileName lib tw current)) e)),
       tw,
       h1 @ [EvOpenFile (filepath_Join lib (logPath tw) (bucketFileName lib tw current))
               (Inl e)])"
  using assms
  by (simp add: Write_def getFileHandler_def bucketFileName_def Let_def)

text \<open>
  C3, on the code. The writer holds the file of 1 January 2026 as handle 1. A Write on
  2 January closes it and fails to open the file of the new day: the Write returns the open
  error, and \<open>lastTime\<close> and the file name stay, but \<open>outFile\<close> still is handle 1, the file
  just closed. One second later the file could be opened, yet the next Write closes
  handle 1 again, gets "file already closed" for it, and returns that error without
  opening anything.
\<close>

theorem Write_open_failure_keeps_closed_handle:
  "Write (disk [''/opt/app/logs/2026-01-02.log''] [] [] (Inr [])) utcLib
      1767323045000000000 [1, 2, 3] writerJan1 historyJan1
     = ((0, Some (FileOpenError ''/opt/app/logs/2026-01-02.log'' (Errno ''permission denied''))),
        writerJan1,
        historyJan1 @ [EvClose 1 None,
          EvOpenFile ''/opt/app/logs/2026-01-02.log'' (Inl (Errno ''permission denied''))])
   \<and> outFile writerJan1 = Some 1
   \<and> Write (disk [] [] [] (Inr [])) utcLib 1767323046000000000 [1, 2, 3] writerJan1
       (historyJan1 @ [EvClose 1 None,
          EvOpenFile ''/opt/app/logs/2026-01-02.log'' (Inl (Errno ''permission denied''))])
     = ((0, Some (OsError ErrClosed)), writerJan1,
        historyJan1 @ [EvClose 1 None,
          EvOpenFile ''/opt/app/logs/2026-01-02.log'' (Inl (Errno ''permission denied'')),
          EvClose 1 (Some ErrClosed)])"
  by (simp add: Write_def getFileHandler_def concrete_defs)

text \<open>
  C4, as amended. When the rotation has to close the previous handle and the close returns
  an error, the rotation is aborted: nothing is opened and no sweep is launched, the Write
  returns that error with zero bytes written, and the writer is left as it was, its handle
  still the previous one.
\<close>

theorem Write_close_failure:
  assumes "currentBucket nowUnixNano tw = Some current"
    and "\<not> go_less (current - lastTime tw) (period tw)"
    and "filename tw \<noteq> bucketFileName lib tw current"
    and "outFile tw = Some f"
    and "file_Close sys h f = Some e"
  shows "Write sys lib nowUnixNano p tw h
    = ((0, Some (OsError e)), tw, h @ [EvClose f (Some e)])"
  using assms
  by (simp add: Write_def getFileHandler_def closeOld_def bucketFileName_def Let_def)

theorem Write_close_failure_witness:
  "currentBucket 1767323045000000000 writerJan1 = Some 1767312000000000000
   \<and> \<not> go_less (1767312000000000000 - lastTime writerJan1) (period writerJan1)
   \<and> filename writerJan1 \<noteq> bucketFileName utcLib writerJan1 1767312000000000000
   \<and> outFile writerJan1 = Some 1
   \<and> file_Close (disk [] [1] [] (Inr [])) historyJan1 1 = Some (Errno ''input/output error'')
   \<and> Write (disk [] [1] [] (Inr [])) utcLib 1767323045000000000 [1, 2, 3] writerJan1 historyJan1
     = ((0, Some (OsError (Errno ''input/output error''))), writerJan1,
        historyJan1 @ [EvClose 1 (Some (Errno ''input/output error''))])"
proof -
  have b: "currentBucket 1767323045000000000 writerJan1 = Some 1767312000000000000"
    by (simp add: concrete_defs)
  have l: "\<not> go_less (1767312000000000000 - lastTime writerJan1) (period writerJan1)"
    by (simp add: concrete_defs)
  have n: "filename writerJan1 \<noteq> bucketFileName utcLib writerJan1 1767312000000000000"
    by (simp add: concrete_defs)
  have f: "outFile writerJan1 = Some 1"
    by (simp add: writerJan1_def)
  have c: "file_Close (disk [] [1] [] (Inr [])) historyJan1 1 = Some (Errno ''input/output error'')"
    by (simp add: concrete_defs)
  show ?thesis
    using b l n f c Write_close_failure [OF b l n f c, of "[1, 2, 3]"] by simp
qed

text \<open>
  C4, as stated, fails: after the Write whose close failed, the writer's handle is not nil.
\<close>

theorem Write_close_failure_counterexample:
  "outFile (fst (snd (Write (disk [] [1] [] (Inr [])) utcLib 1767323045000000000 [1, 2, 3]
      writerJan1 historyJan1))) = Some 1"
  by (simp add: Write_def getFileHandler_def concrete_defs)

section \<open>The retention sweep\<close>

lemma removedPaths_append: "removedPaths (h @ k) = removedPaths h @ removedPaths k"
  by (induction h rule: removedPaths.induct) simp_all

lemma set_insertByFormatTime: "set (insertByFormatTime a bs) = insert a (set bs)"
  by (induction bs) auto

lemma set_sortByFormatTime: "set (sortByFormatTime fs) = set fs"
  by (induction fs) (simp_all add: set_insertByFormatTime)

text \<open>
  The loop of removals extends the history by one removal for each file, in order, and
  keeps the first error it meets.
\<close>

lemma removeAll_history:
  "\<exists>k. snd (removeAll sys lib tw fs err h) = h @ k
     \<and> removedPaths k = map (pathOf lib tw) fs
     \<and> fst (removeAll sys lib tw fs err h)
         = (case err of Some e \<Rightarrow> Some e | None \<Rightarrow> firstRemoveError k)"
proof (induction fs arbitrary: err h)
  case Nil
  show ?case by (simp add: firstRemoveError_def split: option.splits)
next
  case (Cons f fs)
  define path where "path = filepath_Join lib (logPath tw) (Name (info f))"
  define r where "r = os_Remove sys h path"
  define err1 where
    "err1 = (if err = None \<and> r \<noteq> None then map_option OsError r else err)"
  obtain k where k:
    "snd (removeAll sys lib tw fs err1 (h @ [EvRemove path r])) = (h @ [EvRemove path r]) @ k"
    "removedPaths k = map (pathOf lib tw) fs"
    "fst (removeAll sys lib tw fs err1 (h @ [EvRemove path r]))
       = (case err1 of Some e \<Rightarrow> Some e | None \<Rightarrow> firstRemoveError k)"
    using Cons.IH [of err1 "h @ [EvRemove path r]"] by blast
  have step: "removeAll sys lib tw (f # fs) err h
      = removeAll sys lib tw fs err1 (h @ [EvRemove path r])"
    by (simp add: path_def r_def err1_def Let_def)
  have "snd (removeAll sys lib tw (f # fs) err h) = h @ (EvRemove path r # k)"
    using k(1) step by simp
  moreover have "removedPaths (EvRemove path r # k) = map (pathOf lib tw) (f # fs)"
    using k(2) by (simp add: pathOf_def path_def)
  moreover have "fst (removeAll sys lib tw (f # fs) err h)
      = (case err of Some e \<Rightarrow> Some e | None \<Rightarrow> firstRemoveError (EvRemove path r # k))"
    using k(3) step
    by (cases err; cases r) (simp_all add: err1_def firstRemoveError_def)
  ultimately show ?case by blast
qed

lemma cleanRunOnce_positive:
  assumes "go_less 0 (maxAge tw)"
    and "os_ReadDir sys h (logPath tw) = Inr entries"
  shows "\<exists>k. snd (cleanRunOnce sys lib now tw h) = h @ EvReadDir (logPath tw) (Inr entries) # k
     \<and> removedPaths k = map (pathOf lib tw)
          (filter (\<lambda>f. timestamp f < cutoff now tw) (sortByFormatTime (logFilesOf lib tw entries)))
     \<and> fst (cleanRunOnce sys lib now tw h) = firstRemoveError k"
proof -
  have nz: "maxAge tw \<noteq> 0"
    using assms(1) by (auto simp: go_less_def)
  define fs where
    "fs = filter (\<lambda>f. timestamp f < cutoff now tw) (sortByFormatTime (logFilesOf lib tw entries))"
  have c: "cleanRunOnce sys lib now tw h
      = removeAll sys lib tw fs None (h @ [EvReadDir (logPath tw) (Inr entries)])"
    using assms nz by (simp add: cleanRunOnce_def oldLogFiles_def Let_def fs_def)
  obtain k where
    "snd (removeAll sys lib tw fs None (h @ [EvReadDir (logPath tw) (Inr entries)]))
       = (h @ [EvReadDir (logPath tw) (Inr entries)]) @ k"
    "removedPaths k = map (pathOf lib tw) fs"
    "fst (removeAll sys lib tw fs None (h @ [EvReadDir (logPath tw) (Inr entries)]))
       = (case None of Some e \<Rightarrow> Some e | None \<Rightarrow> firstRemoveError k)"
    using removeAll_history [of sys lib tw fs None "h @ [EvReadDir (logPath tw) (Inr entries)]"]
    by blast
  then show ?thesis using c by (simp add: fs_def)
qed

text \<open>Up to 106751 days the product of line 134 does not wrap.\<close>

lemma cutoff_days:
  assumes "0 \<le> sint (maxAge tw)" "sint (maxAge tw) \<le> 106751"
  shows "cutoff now tw = now - sint (maxAge tw) * 86400000000000"
proof -
  have m: "sint (Hour24 * maxAge tw) = 86400000000000 * sint (maxAge tw)"
    using assms
    by (simp add: Hour24_def sint_word_ariths signed_take_bit_int_eq_self)
  have "sint (- (Hour24 * maxAge tw)) = - (86400000000000 * sint (maxAge tw))"
    using assms m
    by (simp add: sint_word_ariths signed_take_bit_int_eq_self)
  then show ?thesis by (simp add: cutoff_def)
qed

text \<open>
  C6, as amended. For a retention horizon \<open>maxAge > 0\<close> and a directory that can be listed,
  one sweep calls \<^verbatim>\<open>os.Remove\<close> on exactly the log files of the listing whose parsed time is
  strictly before the cutoff, and on no other file; a file whose time is the cutoff itself
  is kept. For horizons up to 106751 days the cutoff is \<open>maxAge\<close> times 24 hours before now.
\<close>

theorem cleanRunOnce_cutoff:
  assumes "go_less 0 (maxAge tw)"
    and "os_ReadDir sys h (logPath tw) = Inr entries"
  shows "set (removedPaths (drop (length h) (snd (cleanRunOnce sys lib now tw h))))
      = set (map (pathOf lib tw)
          (filter (\<lambda>f. timestamp f < cutoff now tw) (logFilesOf lib tw entries)))
    \<and> (sint (maxAge tw) \<le> 106751 \<longrightarrow>
         cutoff now tw = now - sint (maxAge tw) * 86400000000000)"
proof -
  obtain k where k:
    "snd (cleanRunOnce sys lib now tw h) = h @ EvReadDir (logPath tw) (Inr entries) # k"
    "removedPaths k = map (pathOf lib tw)
       (filter (\<lambda>f. timestamp f < cutoff now tw) (sortByFormatTime (logFilesOf lib tw entries)))"
    using cleanRunOnce_positive [OF assms] by blast
  have "removedPaths (drop (length h) (snd (cleanRunOnce sys lib now tw h)))
      = map (pathOf lib tw)
          (filter (\<lambda>f. timestamp f < cutoff now tw) (sortByFormatTime (logFilesOf lib tw entries)))"
    using k by simp
  then have "set (removedPaths (drop (length h) (snd (cleanRunOnce sys lib now tw h))))
      = set (map (pathOf lib tw)
          (filter (\<lambda>f. timestamp f < cutoff now tw) (logFilesOf lib tw entries)))"
    by (simp add: set_sortByFormatTime)
  moreover have "sint (maxAge tw) \<le> 106751 \<longrightarrow>
         cutoff now tw = now - sint (maxAge tw) * 86400000000000"
    using assms(1) cutoff_days [of tw now] by (simp add: go_less_def)
  ultimately show ?thesis by blast
qed

text \<open>
  On 2 January 2026 at 03:04:05 UTC, with a horizon of one day, the sweep removes the files
  of 31 December and of 1 January and keeps the file of 2 January, the file of another
  kind and the subdirectory.
\<close>

theorem cleanRunOnce_cutoff_witness:
  "go_less 0 (maxAge writerJan2)
   \<and> os_ReadDir (disk [] [] [] (Inr logsDir)) historyJan2 (logPath writerJan2) = Inr logsDir
   \<and> sint (maxAge writerJan2) \<le> 106751
   \<and> cutoff 1767323045000000000 writerJan2 = 1767323045000000000 - 1 * 86400000000000
   \<and> set (removedPaths (drop (length historyJan2)
        (snd (cleanRunOnce (disk [] [] [] (Inr logsDir)) utcLib 1767323045000000000
           writerJan2 historyJan2))))
     = {''/opt/app/logs/2025-12-31.log'', ''/opt/app/logs/2026-01-01.log''}"
proof -
  have a: "go_less 0 (maxAge writerJan2)"
    by (simp add: concrete_defs)
  have b: "os_ReadDir (disk [] [] [] (Inr logsDir)) historyJan2 (logPath writerJan2) = Inr logsDir"
    by (simp add: concrete_defs)
  have c: "sint (maxAge writerJan2) \<le> 106751"
    by (simp add: concrete_defs)
  have d: "map (pathOf utcLib writerJan2)
      (filter (\<lambda>f. timestamp f < cutoff 1767323045000000000 writerJan2)
         (logFilesOf utcLib writerJan2 logsDir))
    = [''/opt/app/logs/2025-12-31.log'', ''/opt/app/logs/2026-01-01.log'']"
    by (simp add: sweep_defs concrete_defs)
  show ?thesis
    using a b c cleanRunOnce_cutoff [OF a b, of utcLib 1767323045000000000]
    unfolding d by (simp add: concrete_defs)
qed

text \<open>
  C6, as stated, fails: at midnight of 2 January 2026 the file of 1 January is dated
  exactly one day before now, and the sweep with a horizon of one day does not remove it;
  it removes the file of 31 December only.
\<close>

theorem cleanRunOnce_keeps_file_at_cutoff_counterexample:
  "time_Parse utcLib ''2006-01-02'' ''2026-01-01'' = Inr (1767312000000000000 - 1 * 86400000000000)
   \<and> removedPaths (snd (cleanRunOnce (disk [] [] [] (Inr logsDir)) utcLib 1767312000000000000
        writerJan2 historyJan2))
     = [''/opt/app/logs/2025-12-31.log'']"
  by (simp add: sweep_defs concrete_defs)

text \<open>
  C7, as amended. The sweep calls \<^verbatim>\<open>os.Remove\<close> on every candidate, in the order of the
  sorted list, whatever the earlier removals returned, and the error it returns is the
  first error that a removal returned (none when no removal failed).
\<close>

theorem cleanRunOnce_first_error:
  assumes "go_less 0 (maxAge tw)"
    and "os_ReadDir sys h (logPath tw) = Inr entries"
  shows "removedPaths (drop (length h) (snd (cleanRunOnce sys lib now tw h)))
      = map (pathOf lib tw)
          (filter (\<lambda>f. timestamp f < cutoff now tw) (sortByFormatTime (logFilesOf lib tw entries)))
    \<and> fst (cleanRunOnce sys lib now tw h)
      = firstRemoveError (drop (length h) (snd (cleanRunOnce sys lib now tw h)))"
proof -
  obtain k where k:
    "snd (cleanRunOnce sys lib now tw h) = h @ EvReadDir (logPath tw) (Inr entries) # k"
    "removedPaths k = map (pathOf lib tw)
       (filter (\<lambda>f. timestamp f < cutoff now tw) (sortByFormatTime (logFilesOf lib tw entries)))"
    "fst (cleanRunOnce sys lib now tw h) = firstRemoveError k"
    using cleanRunOnce_positive [OF assms] by blast
  show ?thesis using k by (simp add: firstRemoveError_def)
qed

theorem cleanRunOnce_first_error_witness:
  "go_less 0 (maxAge writerJan2)
   \<and> os_ReadDir (disk [] [] [''/opt/app/logs/2026-01-01.log'', ''/opt/app/logs/2025-12-31.log'']
        (Inr logsDir)) historyJan2 (logPath writerJan2) = Inr logsDir
   \<and> removedPaths (drop (length historyJan2)
        (snd (cleanRunOnce
           (disk [] [] [''/opt/app/logs/2026-01-01.log'', ''/opt/app/logs/2025-12-31.log'']
              (Inr logsDir))
           utcLib 1767323045000000000 writerJan2 historyJan2)))
     = [''/opt/app/logs/2026-01-01.log'', ''/opt/app/logs/2025-12-31.log'']
   \<and> fst (cleanRunOnce
        (disk [] [] [''/opt/app/logs/2026-01-01.log'', ''/opt/app/logs/2025-12-31.log'']
           (Inr logsDir))
        utcLib 1767323045000000000 writerJan2 historyJan2)
     = firstRemoveError (drop (length historyJan2)
         (snd (cleanRunOnce
            (disk [] [] [''/opt/app/logs/2026-01-01.log'', ''/opt/app/logs/2025-12-31.log'']
               (Inr logsDir))
            utcLib 1767323045000000000 writerJan2 historyJan2)))"
proof -
  have a: "go_less 0 (maxAge writerJan2)"
    by (simp add: concrete_defs)
  have b: "os_ReadDir
      (disk [] [] [''/opt/app/logs/2026-01-01.log'', ''/opt/app/logs/2025-12-31.log'']
         (Inr logsDir)) historyJan2 (logPath writerJan2) = Inr logsDir"
    by (simp add: concrete_defs)
  have d: "map (pathOf utcLib writerJan2)
      (filter (\<lambda>f. timestamp f < cutoff 1767323045000000000 writerJan2)
         (sortByFormatTime (logFilesOf utcLib writerJan2 logsDir)))
    = [''/opt/app/logs/2026-01-01.log'', ''/opt/app/logs/2025-12-31.log'']"
    by (simp add: sweep_defs concrete_defs)
  show ?thesis
    using a b cleanRunOnce_first_error [OF a b, of utcLib 1767323045000000000]
    unfolding d by simp
qed

text \<open>
  C7, as stated, fails: both removals fail, the one of the file of 1 January first and the
  one of the file of 31 December last, and the sweep returns the error of the first.
\<close>

theorem cleanRunOnce_returns_first_error_counterexample:
  "removeErrors (snd (cleanRunOnce
       (disk [] [] [''/opt/app/logs/2026-01-01.log'', ''/opt/app/logs/2025-12-31.log'']
          (Inr logsDir))
       utcLib 1767323045000000000 writerJan2 historyJan2))
     = [Errno ''cannot remove /opt/app/logs/2026-01-01.log'',
        Errno ''cannot remove /opt/app/logs/2025-12-31.log'']
   \<and> fst (cleanRunOnce
       (disk [] [] [''/opt/app/logs/2026-01-01.log'', ''/opt/app/logs/2025-12-31.log'']
          (Inr logsDir))
       utcLib 1767323045000000000 writerJan2 historyJan2)
     = Some (OsError (Errno ''cannot remove /opt/app/logs/2026-01-01.log''))"
  by (simp add: sweep_defs concrete_defs)

text \<open>
  C8, as amended. With a retention horizon of 0 a sweep is a no-op: it returns no error
  and leaves the history as it was, so it lists no directory and removes no file. With any
  horizon that is not positive a sweep removes no file.
\<close>

theorem cleanRunOnce_disabled:
  "(maxAge tw = 0 \<longrightarrow> cleanRunOnce sys lib now tw h = (None, h))
   \<and> (\<not> go_less 0 (maxAge tw) \<longrightarrow>
        removedPaths (snd (cleanRunOnce sys lib now tw h)) = removedPaths h)"
  by (cases "os_ReadDir sys h (logPath tw)")
    (simp_all add: cleanRunOnce_def oldLogFiles_def Let_def removedPaths_append)

theorem cleanRunOnce_disabled_witness:
  "maxAge (writerJan2\<lparr>maxAge := 0\<rparr>) = 0
   \<and> cleanRunOnce (disk [] [] [] (Inr logsDir)) utcLib 1767323045000000000
        (writerJan2\<lparr>maxAge := 0\<rparr>) historyJan2 = (None, historyJan2)
   \<and> \<not> go_less 0 (maxAge (writerJan2\<lparr>maxAge := - 1\<rparr>))
   \<and> removedPaths (snd (cleanRunOnce (disk [] [] [] (Inr logsDir)) utcLib 1767323045000000000
        (writerJan2\<lparr>maxAge := - 1\<rparr>) historyJan2)) = removedPaths historyJan2"
proof -
  have a: "maxAge (writerJan2\<lparr>maxAge := 0\<rparr>) = 0"
    by simp
  have b: "\<not> go_less 0 (maxAge (writerJan2\<lparr>maxAge := - 1\<rparr>))"
    by (simp add: go_less_def)
  show ?thesis
    using a b
      cleanRunOnce_disabled [of "writerJan2\<lparr>maxAge := 0\<rparr>" "disk [] [] [] (Inr logsDir)"
        utcLib 1767323045000000000 historyJan2]
      cleanRunOnce_disabled [of "writerJan2\<lparr>maxAge := - 1\<rparr>" "disk [] [] [] (Inr logsDir)"
        utcLib 1767323045000000000 historyJan2]
    by simp
qed

text \<open>
  C8, as stated, fails for a negative horizon: with \<open>maxAge = - 1\<close> the sweep lists the
  directory, and when the listing fails it returns that error.
\<close>

theorem cleanRunOnce_negative_horizon_counterexample:
  "cleanRunOnce (disk [] [] [] (Inl (Errno ''permission denied''))) utcLib 1767323045000000000
      (writerJan2\<lparr>maxAge := - 1\<rparr>) historyJan2
     = (Some (ReadDirError (Errno ''permission denied'')),
        historyJan2 @ [EvReadDir ''/opt/app/logs'' (Inl (Errno ''permission denied''))])"
  by (simp add: sweep_defs concrete_defs)


section \<open>Sequences of Write and Close\<close>

lemma NewDateRotator_fields:
  assumes "NewDateRotator lib executable stat mkdirAll offset directory format ex maxAg = Inr tw0"
  shows "outFile tw0 = None \<and> lastTime tw0 = 0 \<and> period tw0 = Hour24
    \<and> timeDiffToUTC tw0 = offset * Second \<and> filename tw0 = []"
  using assms
  by (auto simp: NewDateRotator_def Let_def split: sum.splits stat_result.splits option.splits)

subsection \<open>The open handle and the recorded name and bucket\<close>

lemma Write_handleInvariant:
  assumes "handleInvariant lib seen tw h"
    and "Write sys lib nowUnixNano p tw h = (res, tw', h')"
  shows "handleInvariant lib (seen @ [nowUnixNano]) tw' h'"
  using assms
  by (auto simp: handleInvariant_def Write_def getFileHandler_def closeOld_def Let_def
      bucketFileName_def currentBucket_def
      split: option.splits sum.splits io_Writer.splits if_splits prod.splits)

lemma Write_period:
  assumes "period tw \<noteq> 0"
    and "Write sys lib nowUnixNano p tw h = (res, tw', h')"
  shows "period tw' = period tw \<and> snd res \<noteq> Some PanicDivideByZero"
  using assms
  by (auto simp: Write_def getFileHandler_def closeOld_def Let_def currentBucket_def go_rem_def
      split: option.splits sum.splits io_Writer.splits if_splits prod.splits)

lemma Close_handleInvariant:
  assumes "handleInvariant lib seen tw h"
    and "Close sys tw h = (e, tw', h')"
  shows "handleInvariant lib seen tw' h' \<and> period tw' = period tw"
  using assms
  by (auto simp: handleInvariant_def Close_def Let_def bucketFileName_def currentBucket_def
      split: option.splits)

lemma run_handleInvariant:
  assumes "handleInvariant lib seen tw h"
    and "period tw \<noteq> 0"
  shows "\<exists>tw' h'. run sys lib ops tw h = Some (tw', h')
     \<and> handleInvariant lib (seen @ clockReadings ops) tw' h'"
  using assms
proof (induction ops arbitrary: seen tw h)
  case Nil
  then show ?case by simp
next
  case (Cons op ops)
  show ?case
  proof (cases op)
    case (OpWrite now p)
    obtain n err tw1 h1 where w: "Write sys lib now p tw h = ((n, err), tw1, h1)"
      by (metis prod_cases3 surj_pair)
    have i: "handleInvariant lib (seen @ [now]) tw1 h1"
      using Write_handleInvariant [OF Cons.prems(1) w] .
    have q: "period tw1 \<noteq> 0" "err \<noteq> Some PanicDivideByZero"
      using Write_period [OF Cons.prems(2) w] Cons.prems(2) by simp_all
    show ?thesis
      using Cons.IH [OF i q(1)] w q(2) OpWrite by simp
  next
    case OpClose
    obtain e tw1 h1 where c: "Close sys tw h = (e, tw1, h1)"
      by (metis prod_cases3)
    have i: "handleInvariant lib seen tw1 h1" "period tw1 \<noteq> 0"
      using Close_handleInvariant [OF Cons.prems(1) c] Cons.prems(2) by simp_all
    show ?thesis
      using Cons.IH [OF i] c OpClose by simp
  qed
qed

text \<open>
  C5. From a writer that \<^verbatim>\<open>NewDateRotator\<close> returned, every sequence of Write and Close
  calls runs to its end, and after it, whenever the handle is not nil: the recorded file
  name is the recorded bucket start formatted in local time with the configured pattern,
  plus the extension; the handle is the one the operating system returned for opening the
  file of that name in the log directory; and the recorded bucket start is the bucket
  start computed from the clock reading of one of the Write calls.
\<close>

theorem handle_names_bucket_file:
  assumes "NewDateRotator lib executable stat mkdirAll offset directory format ex maxAg = Inr tw0"
  shows "\<exists>tw h. run sys lib ops tw0 h0 = Some (tw, h)
     \<and> handleInvariant lib (clockReadings ops) tw h"
proof -
  have f: "outFile tw0 = None" "period tw0 \<noteq> 0"
    using NewDateRotator_fields [OF assms] by (simp_all add: Hour24_def)
  have "handleInvariant lib [] tw0 h0"
    using f(1) by (simp add: handleInvariant_def)
  then show ?thesis
    using run_handleInvariant [of lib "[]" tw0 h0 sys ops] f(2) by simp
qed

theorem handle_names_bucket_file_witness:
  "NewDateRotator utcLib (Inr ''/opt/app/server'') StatOk None 0
      ''logs'' ''2006-01-02'' ''.log'' 1 = Inr writerNew
   \<and> run (disk [] [] [] (Inr [])) utcLib [OpWrite 1767323045000000000 [1, 2, 3]] writerNew []
       = Some (writerJan2, historyJan2)
   \<and> outFile writerJan2 = Some 1
   \<and> handleInvariant utcLib (clockReadings [OpWrite 1767323045000000000 [1, 2, 3]])
       writerJan2 historyJan2"
proof -
  have c: "NewDateRotator utcLib (Inr ''/opt/app/server'') StatOk None 0
      ''logs'' ''2006-01-02'' ''.log'' 1 = Inr writerNew"
    by (simp add: NewDateRotator_def utcLib_def writerNew_def Second_def)
  have r: "run (disk [] [] [] (Inr [])) utcLib [OpWrite 1767323045000000000 [1, 2, 3]]
      writerNew [] = Some (writerJan2, historyJan2)"
    by (simp add: Write_def getFileHandler_def concrete_defs)
  have o: "outFile writerJan2 = Some 1"
    by (simp add: writerJan2_def)
  show ?thesis
    using c r o
      handle_names_bucket_file [OF c, of "disk [] [] [] (Inr [])"
        "[OpWrite 1767323045000000000 [1, 2, 3]]" "[]"]
    by simp
qed

subsection \<open>The recorded bucket start never decreases\<close>

lemma sint64_bounds:
  "- 9223372036854775808 \<le> sint (w :: int64)" "sint (w :: int64) < 9223372036854775808"
  using sint_ge [of w] sint_lt [of w] by simp_all

lemma sint64_add:
  "- 9223372036854775808 \<le> sint (a :: int64) + sint b
   \<Longrightarrow> sint a + sint b < 9223372036854775808
   \<Longrightarrow> sint (a + b) = sint a + sint b"
  by (simp add: sint_word_ariths signed_take_bit_int_eq_self)

lemma sint64_diff:
  "- 9223372036854775808 \<le> sint (a :: int64) - sint b
   \<Longrightarrow> sint a - sint b < 9223372036854775808
   \<Longrightarrow> sint (a - b) = sint a - sint b"
  by (simp add: sint_word_ariths signed_take_bit_int_eq_self)

lemma sint64_of_int:
  "- 9223372036854775808 \<le> k \<Longrightarrow> k < 9223372036854775808
   \<Longrightarrow> sint (word_of_int k :: int64) = k"
  by (simp add: sint_sbintrunc' signed_take_bit_int_eq_self)

text \<open>
  With a positive period and a clock in range, line 73 does not wrap, and the bucket start
  is less than a period away from the clock reading.
\<close>

lemma currentBucket_range:
  assumes P: "0 < sint (period tw)"
    and D: "sint (timeDiffToUTC tw) \<le> 2 * sint (period tw)"
    and N: "0 \<le> sint now" "sint now < 9223372036854775808 - 2 * sint (period tw)"
  shows "\<exists>c. currentBucket now tw = Some c
     \<and> - sint (period tw) < sint c \<and> sint c < 9223372036854775808 - sint (period tw)"
proof -
  define m where "m = (sint now + sint (timeDiffToUTC tw)) smod sint (period tw)"
  have nz: "period tw \<noteq> 0" using P by auto
  have s: "sint (now + timeDiffToUTC tw) = sint now + sint (timeDiffToUTC tw)"
    using D N sint64_bounds [of "timeDiffToUTC tw"] by (intro sint64_add) linarith+
  have "m \<in> {- \<bar>sint (period tw)\<bar> + 1..\<bar>sint (period tw)\<bar> - 1}"
    unfolding m_def using P by (intro smod_int_range) simp
  then have mb: "- sint (period tw) < m" "m < sint (period tw)"
    using P by auto
  have pb: "sint (period tw) < 9223372036854775808" by (rule sint64_bounds)
  have r: "sint (word_of_int m :: int64) = m"
    using mb pb by (intro sint64_of_int) linarith+
  have c: "currentBucket now tw = Some (now - word_of_int m)"
    using nz by (simp add: currentBucket_def go_rem_def s m_def)
  have d: "sint (now - word_of_int m :: int64) = sint now - m"
  proof -
    have "- 9223372036854775808 \<le> sint now - sint (word_of_int m :: int64)"
      using mb N pb r by linarith
    moreover have "sint now - sint (word_of_int m :: int64) < 9223372036854775808"
      using mb N pb r by linarith
    ultimately show ?thesis
      using sint64_diff [of now "word_of_int m"] r by simp
  qed
  show ?thesis using c d mb N by auto
qed

lemma Write_lastTime:
  assumes P: "0 < sint (period tw)"
    and D: "sint (timeDiffToUTC tw) \<le> 2 * sint (period tw)"
    and L: "- sint (period tw) < sint (lastTime tw)"
      "sint (lastTime tw) < 9223372036854775808 - sint (period tw)"
    and N: "0 \<le> sint now" "sint now < 9223372036854775808 - 2 * sint (period tw)"
    and W: "Write sys lib now p tw h = (res, tw', h')"
  shows "(lastTime tw' = lastTime tw
       \<or> sint (lastTime tw) + sint (period tw) \<le> sint (lastTime tw'))
    \<and> - sint (period tw) < sint (lastTime tw')
    \<and> sint (lastTime tw') < 9223372036854775808 - sint (period tw)
    \<and> period tw' = period tw \<and> timeDiffToUTC tw' = timeDiffToUTC tw
    \<and> snd res \<noteq> Some PanicDivideByZero"
proof -
  obtain c where c: "currentBucket now tw = Some c"
    "- sint (period tw) < sint c" "sint c < 9223372036854775808 - sint (period tw)"
    using currentBucket_range [OF P D N] by blast
  have d: "sint (c - lastTime tw) = sint c - sint (lastTime tw)"
    using c L by (intro sint64_diff) linarith+
  have g: "\<not> go_less (c - lastTime tw) (period tw)
      \<Longrightarrow> sint (lastTime tw) + sint (period tw) \<le> sint c"
    using d by (simp add: go_less_def)
  show ?thesis
    using W c L g
    by (auto simp: Write_def getFileHandler_def closeOld_def Let_def
        split: option.splits sum.splits io_Writer.splits if_splits prod.splits)
qed

lemma Close_fields:
  "Close sys tw h = (e, tw', h') \<Longrightarrow>
     lastTime tw' = lastTime tw \<and> period tw' = period tw \<and> timeDiffToUTC tw' = timeDiffToUTC tw"
  by (auto simp: Close_def Let_def split: option.splits)

lemma run_lastTime:
  assumes "0 < sint (period tw)"
    and "sint (timeDiffToUTC tw) \<le> 2 * sint (period tw)"
    and "- sint (period tw) < sint (lastTime tw)"
      "sint (lastTime tw) < 9223372036854775808 - sint (period tw)"
    and "\<forall>now \<in> set (clockReadings ops).
           0 \<le> sint now \<and> sint now < 9223372036854775808 - 2 * sint (period tw)"
    and "run sys lib ops tw h = Some (tw', h')"
  shows "(lastTime tw' = lastTime tw
       \<or> sint (lastTime tw) + sint (period tw) \<le> sint (lastTime tw'))
    \<and> - sint (period tw) < sint (lastTime tw')
    \<and> sint (lastTime tw') < 9223372036854775808 - sint (period tw)
    \<and> period tw' = period tw \<and> timeDiffToUTC tw' = timeDiffToUTC tw"
  using assms
proof (induction ops arbitrary: tw h)
  case Nil
  then show ?case by simp
next
  case (Cons op ops)
  show ?case
  proof (cases op)
    case (OpWrite now p)
    obtain res tw1 h1 where w: "Write sys lib now p tw h = (res, tw1, h1)"
      by (metis prod_cases3)
    have n: "0 \<le> sint now" "sint now < 9223372036854775808 - 2 * sint (period tw)"
      using Cons.prems(5) OpWrite by simp_all
    note s = Write_lastTime [OF Cons.prems(1,2,3,4) n w]
    have r: "run sys lib ops tw1 h1 = Some (tw', h')"
      using Cons.prems(6) OpWrite w s by (cases res) (simp split: if_splits)
    have "\<forall>now \<in> set (clockReadings ops).
        0 \<le> sint now \<and> sint now < 9223372036854775808 - 2 * sint (period tw1)"
      using Cons.prems(5) OpWrite s by simp
    then have i: "(lastTime tw' = lastTime tw1
         \<or> sint (lastTime tw1) + sint (period tw1) \<le> sint (lastTime tw'))
      \<and> - sint (period tw1) < sint (lastTime tw')
      \<and> sint (lastTime tw') < 9223372036854775808 - sint (period tw1)
      \<and> period tw' = period tw1 \<and> timeDiffToUTC tw' = timeDiffToUTC tw1"
      using Cons.IH [of tw1 h1] s r Cons.prems(1,2) by simp
    show ?thesis using s i Cons.prems(1) by auto
  next
    case OpClose
    obtain e tw1 h1 where c: "Close sys tw h = (e, tw1, h1)"
      by (metis prod_cases3)
    note s = Close_fields [OF c]
    have r: "run sys lib ops tw1 h1 = Some (tw', h')"
      using Cons.prems(6) OpClose c by simp
    have "\<forall>now \<in> set (clockReadings ops).
        0 \<le> sint now \<and> sint now < 9223372036854775808 - 2 * sint (period tw1)"
      using Cons.prems(5) OpClose s by simp
    then show ?thesis
      using Cons.IH [of tw1 h1] s r Cons.prems(1,2,3,4) by simp
  qed
qed

lemma offset_nanoseconds:
  assumes "- 86400 \<le> sint (offset :: int64)" "sint offset \<le> 86400"
  shows "sint (offset * Second) = sint offset * 1000000000"
  using assms
  by (simp add: Second_def sint_word_ariths signed_take_bit_int_eq_self)

lemma clockReadings_append:
  "clockReadings (ops1 @ ops2) = clockReadings ops1 @ clockReadings ops2"
  by (induction ops1 rule: clockReadings.induct) simp_all

text \<open>
  C10, as amended. Take a writer that \<^verbatim>\<open>NewDateRotator\<close> returned in a zone whose offset
  is within a day of UTC, and any sequence of Write and Close calls whose clock readings lie
  between the Unix epoch and two days before the end of the \<^verbatim>\<open>int64\<close> range (April 2262),
  in any order, forwards or backwards. Between any two points of the sequence the recorded
  bucket start does not decrease: it is the same, or it has grown by a full period or more.
\<close>

theorem lastTime_never_decreases:
  assumes "NewDateRotator lib executable stat mkdirAll offset directory format ex maxAg = Inr tw0"
    and "- 86400 \<le> sint offset" "sint offset \<le> 86400"
    and "list_all clockInRange (clockReadings (ops1 @ ops2))"
    and "run sys lib ops1 tw0 h0 = Some (tw1, h1)"
    and "run sys lib ops2 tw1 h1 = Some (tw2, h2)"
  shows "sint (lastTime tw1) \<le> sint (lastTime tw2)
    \<and> (lastTime tw2 = lastTime tw1
       \<or> sint (lastTime tw1) + sint Hour24 \<le> sint (lastTime tw2))"
proof -
  note f = NewDateRotator_fields [OF assms(1)]
  have P: "sint (period tw0) = 86400000000000"
    using f by (simp add: Hour24_def)
  have D: "sint (timeDiffToUTC tw0) \<le> 2 * sint (period tw0)"
    using f offset_nanoseconds [OF assms(2,3)] assms(3) P by simp
  have L: "sint (lastTime tw0) = 0"
    using f by simp
  have c: "\<forall>now \<in> set (clockReadings (ops1 @ ops2)).
      0 \<le> sint now \<and> sint now < 9223372036854775808 - 2 * sint (period tw0)"
    using assms(4) P by (simp add: list_all_iff clockInRange_def Hour24_def)
  have c1: "\<forall>now \<in> set (clockReadings ops1).
      0 \<le> sint now \<and> sint now < 9223372036854775808 - 2 * sint (period tw0)"
    using c clockReadings_append by simp
  have s1: "- sint (period tw0) < sint (lastTime tw1)
    \<and> sint (lastTime tw1) < 9223372036854775808 - sint (period tw0)
    \<and> period tw1 = period tw0 \<and> timeDiffToUTC tw1 = timeDiffToUTC tw0"
    using run_lastTime [OF _ D _ _ c1 assms(5)] P L by simp
  have c2: "\<forall>now \<in> set (clockReadings ops2).
      0 \<le> sint now \<and> sint now < 9223372036854775808 - 2 * sint (period tw1)"
    using c clockReadings_append s1 by simp
  have s2: "lastTime tw2 = lastTime tw1
    \<or> sint (lastTime tw1) + sint (period tw1) \<le> sint (lastTime tw2)"
    using run_lastTime [OF _ _ _ _ c2 assms(6)] s1 D P by simp
  show ?thesis
    using s2 s1 P by (auto simp: Hour24_def)
qed

text \<open>
  The first Write is on 2 January 2026; then the clock goes back to 1 January for a second
  Write, and the writer is closed. The recorded bucket start stays that of 2 January.
\<close>

theorem lastTime_never_decreases_witness:
  "NewDateRotator utcLib (Inr ''/opt/app/server'') StatOk None 0
      ''logs'' ''2006-01-02'' ''.log'' 1 = Inr writerNew
   \<and> - 86400 \<le> sint (0 :: int64) \<and> sint (0 :: int64) \<le> 86400
   \<and> list_all clockInRange
       (clockReadings ([OpWrite 1767323045000000000 [1, 2, 3]]
          @ [OpWrite 1767230000000000000 [4], OpClose]))
   \<and> run (disk [] [] [] (Inr [])) utcLib [OpWrite 1767323045000000000 [1, 2, 3]] writerNew []
       = Some (writerJan2, historyJan2)
   \<and> run (disk [] [] [] (Inr [])) utcLib [OpWrite 1767230000000000000 [4], OpClose]
       writerJan2 historyJan2
       = Some (writerJan2\<lparr>outFile := None\<rparr>,
               historyJan2 @ [EvWrite 1 [4] (1, None), EvClose 1 None])
   \<and> sint (lastTime writerJan2) \<le> sint (lastTime (writerJan2\<lparr>outFile := None\<rparr>))"
proof -
  have c: "NewDateRotator utcLib (Inr ''/opt/app/server'') StatOk None 0
      ''logs'' ''2006-01-02'' ''.log'' 1 = Inr writerNew"
    by (simp add: NewDateRotator_def utcLib_def writerNew_def Second_def)
  have o: "- 86400 \<le> sint (0 :: int64)" "sint (0 :: int64) \<le> 86400"
    by simp_all
  have k: "list_all clockInRange
       (clockReadings ([OpWrite 1767323045000000000 [1, 2, 3]]
          @ [OpWrite 1767230000000000000 [4], OpClose]))"
    by (simp add: clockInRange_def Hour24_def)
  have r1: "run (disk [] [] [] (Inr [])) utcLib [OpWrite 1767323045000000000 [1, 2, 3]]
      writerNew [] = Some (writerJan2, historyJan2)"
    by (simp add: Write_def getFileHandler_def concrete_defs)
  have r2: "run (disk [] [] [] (Inr [])) utcLib [OpWrite 1767230000000000000 [4], OpClose]
       writerJan2 historyJan2
       = Some (writerJan2\<lparr>outFile := None\<rparr>,
               historyJan2 @ [EvWrite 1 [4] (1, None), EvClose 1 None])"
    by (simp add: Write_def getFileHandler_def Close_def concrete_defs)
  show ?thesis
    using c o k r1 r2 lastTime_never_decreases [OF c o k r1 r2] by simp
qed

text \<open>
  C10, as stated, fails: outside that range the subtraction of line 74 wraps. The writer's
  first Write is on 2 January 2026; for the next one the clock reads 1 January 1700, which
  \<^verbatim>\<open>UnixNano\<close> can represent. The difference of the two bucket starts is below \<open>- 2 ^ 63\<close>
  and wraps to a positive value of more than a period, so the Write rotates to the file of
  1 January 1700 and the recorded bucket start goes down to that day.
\<close>

theorem lastTime_decreases_on_wrap_counterexample:
  "NewDateRotator utcLib (Inr ''/opt/app/server'') StatOk None 0
      ''logs'' ''2006-01-02'' ''.log'' 1 = Inr writerNew
   \<and> run (disk [] [] [] (Inr [])) utcLib [OpWrite 1767323045000000000 [1, 2, 3]] writerNew []
       = Some (writerJan2, historyJan2)
   \<and> lastTime writerJan2 = 1767312000000000000
   \<and> lastTime (fst (snd (Write (disk [] [] [] (Inr [])) utcLib (- 8520336000000000000) [4]
         writerJan2 historyJan2))) = - 8520336000000000000
   \<and> filename (fst (snd (Write (disk [] [] [] (Inr [])) utcLib (- 8520336000000000000) [4]
         writerJan2 historyJan2))) = ''1700-01-01.log''
   \<and> sint (lastTime (fst (snd (Write (disk [] [] [] (Inr [])) utcLib (- 8520336000000000000) [4]
         writerJan2 historyJan2))))
       < sint (lastTime writerJan2)"
  by (simp add: NewDateRotator_def Second_def Write_def getFileHandler_def concrete_defs)

end
